theory Spec2Isabelle
  imports Main
begin


section \<open>Data model\<close>

text \<open>
  \<^verbatim>\<open>app/models/enums.py\<close>: the lifecycle states of a match. The column
  \<^verbatim>\<open>Matches.state\<close> is a string that \<^verbatim>\<open>validate_state\<close> restricts to the values of
  this enum, and the handlers compare it with the literals "WAITING" and "STARTED".
\<close>

datatype MatchState = WAITING | STARTED | FINISHED

text \<open>
  \<^verbatim>\<open>ReasonWinning\<close> is imported by \<^verbatim>\<open>app/routers/players.py\<close> from the enums module, but
  its declaration is not part of the sources at hand. Only the member \<^verbatim>\<open>FORFEIT\<close> is
  used by the handlers; the other members of the vocabulary are kept abstract. The
  payload of a WINNER message carries \<^verbatim>\<open>reason.value\<close>, represented here by the member.
\<close>

datatype ReasonWinning = FORFEIT | Other_reason nat

text \<open>
  \<^verbatim>\<open>class Matches\<close> of \<^verbatim>\<open>app/models/models.py\<close>. The primary key \<^verbatim>\<open>id\<close> is the key of
  the table below. The attribute \<^verbatim>\<open>current_player_turn\<close> is read by
  \<^verbatim>\<open>end_turn_logic\<close> and written by \<^verbatim>\<open>MatchService.update_turn\<close>; it is an integer
  that the handler compares with \<^verbatim>\<open>current_players\<close> and increments.
\<close>

record Matches =
  match_name :: string
  state :: MatchState
  is_public :: bool
  current_players :: int
  max_players :: int
  current_player_turn :: int

text \<open>
  \<^verbatim>\<open>class Players\<close>. The columns \<^verbatim>\<open>turn_order\<close> and \<^verbatim>\<open>match_id\<close> are nullable.
\<close>

record Players =
  id' :: int
  player_name :: string
  is_owner :: bool
  session_token :: string
  turn_order :: "int option"
  match_id :: "int option"

text \<open>
  A transport channel: its identity and whether the peer is still connected. Sending on
  a closed channel raises \<^verbatim>\<open>RuntimeError\<close>, which the handlers catch around a broadcast.
\<close>

datatype WebSocket = WebSocket (ws_handle: nat) (ws_open: bool)

text \<open>The notification messages built by the handlers (key and payload).\<close>

datatype message =
    PLAYER_LEFT string
  | WINNER int ReasonWinning
  | END_PLAYER_TURN string string "int option"

text \<open>
  What a request makes observable to its collaborators, in the order of the calls: a
  broadcast to the session of a match, and the calls of the card collaborators that
  \<^verbatim>\<open>end_turn\<close> imports from \<^verbatim>\<open>app.routers.matches\<close>.
\<close>

datatype event =
    Broadcast_to_game int message
  | Give_movement_card_to_player int
  | Notify_movement_card_to_player int
  | Notify_all_players_movements_received int int
  | Give_shape_card_to_player int bool

text \<open>
  The \<^verbatim>\<open>detail\<close> texts of the HTTP errors raised by the handlers:
  \<^item> \<open>Player_not_found_with_id n\<close>: "Player not found with id: n"
  \<^item> \<open>Player_not_in_match\<close>: "Player not in match"
  \<^item> \<open>Owner_cannot_leave_match\<close>: "Owner cannot leave match"
  \<^item> \<open>Player_not_connected_to_match\<close>: "Player not connected to match"
  \<^item> \<open>Match_not_found\<close>: "Match not found"
  \<^item> \<open>Player_not_found\<close>: "Player not found"
  \<^item> \<open>Not_players_turn name\<close>: "It's not player name's turn"
\<close>

datatype detail =
    Player_not_found_with_id int
  | Player_not_in_match
  | Owner_cannot_leave_match
  | Player_not_connected_to_match
  | Match_not_found
  | Player_not_found
  | Not_players_turn string

datatype error =
    HTTPException int detail
  | ValueError
  | IndexError
  | NoResultFound
  | GameConnectionDoesNotExist
  | PlayerNotConnected
  | RuntimeError

text \<open>
  The state a request works on: the two tables of the database session, the sessions of
  the connection manager (\<^verbatim>\<open>manager._games\<close>: match id to a dictionary from player id to
  channel, in insertion order) and the events emitted so far.
\<close>

record world =
  matches :: "int \<rightharpoonup> Matches"
  players :: "Players list"
  games :: "int \<rightharpoonup> (int \<times> WebSocket) list"
  trace :: "event list"

section \<open>Actions: state passing with exceptions\<close>

text \<open>
  A handler step takes the state and returns either the exception it raised or its
  value, together with the state it leaves behind. Writes made before an exception stay:
  every service call commits on its own.
\<close>

type_synonym 'a action = "world \<Rightarrow> (error + 'a) \<times> world"

definition returns :: "'a \<Rightarrow> 'a action" where
  "returns x w = (Inr x, w)"

definition raise :: "error \<Rightarrow> 'a action" where
  "raise e w = (Inl e, w)"

definition andthen :: "'a action \<Rightarrow> ('a \<Rightarrow> 'b action) \<Rightarrow> 'b action" where
  "andthen f g w = (case f w of (Inl e, w') \<Rightarrow> (Inl e, w') | (Inr x, w') \<Rightarrow> g x w')"

text \<open>\<^verbatim>\<open>try: f except ...: h\<close>; a handler re-raises what its clauses do not catch.\<close>

definition try_except :: "'a action \<Rightarrow> (error \<Rightarrow> 'a action) \<Rightarrow> 'a action" where
  "try_except f h w = (case f w of (Inl e, w') \<Rightarrow> h e w' | (Inr x, w') \<Rightarrow> (Inr x, w'))"

section \<open>Collaborators\<close>

subsection \<open>Record storage\<close>

text \<open>
  Modelled from the spec: \<^verbatim>\<open>PlayerService\<close> (\<^verbatim>\<open>app/cruds/player.py\<close>) and
  \<^verbatim>\<open>MatchService\<close> (\<^verbatim>\<open>app/cruds/match.py\<close>) are not part of the sources at hand. The
  spec lists them as the record storage: findMatch(id), findPlayer(id),
  listPlayersByMatch(id), updateMatch(id, state, currentPlayers), updateTurn(id, turn),
  deletePlayer(id), each of which may fail with a not-found condition. The exception of
  a missing player is the \<^verbatim>\<open>ValueError\<close> that \<^verbatim>\<open>leave_player\<close> catches, that of a
  missing match the \<^verbatim>\<open>NoResultFound\<close> it maps to "Match not found".
\<close>

definition get_player_by_id :: "int \<Rightarrow> Players action" where
  "get_player_by_id pid w =
     (case find (\<lambda>p. id' p = pid) (players w) of
        None \<Rightarrow> (Inl ValueError, w)
      | Some p \<Rightarrow> (Inr p, w))"

definition get_match_by_id :: "int \<Rightarrow> Matches action" where
  "get_match_by_id mid w =
     (case matches w mid of
        None \<Rightarrow> (Inl NoResultFound, w)
      | Some m \<Rightarrow> (Inr m, w))"

definition get_players_by_match :: "int \<Rightarrow> world \<Rightarrow> Players list" where
  "get_players_by_match mid w = filter (\<lambda>p. match_id p = Some mid) (players w)"

definition get_player_by_turn :: "int \<Rightarrow> int \<Rightarrow> Players action" where
  "get_player_by_turn t mid w =
     (case filter (\<lambda>p. turn_order p = Some t \<and> match_id p = Some mid) (players w) of
        [] \<Rightarrow> (Inl NoResultFound, w)
      | p # _ \<Rightarrow> (Inr p, w))"

definition delete_player :: "int \<Rightarrow> unit action" where
  "delete_player pid w =
     (case find (\<lambda>p. id' p = pid) (players w) of
        None \<Rightarrow> (Inl NoResultFound, w)
      | Some _ \<Rightarrow> (Inr (), w\<lparr>players := filter (\<lambda>p. id' p \<noteq> pid) (players w)\<rparr>))"

definition update_match :: "int \<Rightarrow> MatchState \<Rightarrow> int \<Rightarrow> unit action" where
  "update_match mid new_state new_amount_players w =
     (case matches w mid of
        None \<Rightarrow> (Inl NoResultFound, w)
      | Some m \<Rightarrow>
          (Inr (), w\<lparr>matches := (matches w)
             (mid \<mapsto> m\<lparr>state := new_state, current_players := new_amount_players\<rparr>)\<rparr>))"

definition update_turn :: "int \<Rightarrow> int \<Rightarrow> unit action" where
  "update_turn mid turn w =
     (case matches w mid of
        None \<Rightarrow> (Inl NoResultFound, w)
      | Some m \<Rightarrow>
          (Inr (), w\<lparr>matches := (matches w)(mid \<mapsto> m\<lparr>current_player_turn := turn\<rparr>)\<rparr>))"

subsection \<open>Connection manager\<close>

text \<open>
  Modelled from the spec: \<^verbatim>\<open>app/connection_manager.py\<close> is not part of the sources at
  hand; its tests are. \<open>unbind\<close> removes the binding and fails with SessionNotFound or
  PlayerNotBound (\<^verbatim>\<open>GameConnectionDoesNotExist\<close>, \<^verbatim>\<open>PlayerNotConnected\<close> in
  \<^verbatim>\<open>test_disconnect_player_from_game_raise_exceptions\<close>); \<open>broadcast\<close> delivers the
  message to every channel bound in the session and fails with SessionNotFound when the
  match has no session. A closed channel makes the delivery fail with the
  \<^verbatim>\<open>RuntimeError\<close> that the handlers catch.
\<close>

definition disconnect_player_from_game :: "int \<Rightarrow> int \<Rightarrow> unit action" where
  "disconnect_player_from_game mid pid w =
     (case games w mid of
        None \<Rightarrow> (Inl GameConnectionDoesNotExist, w)
      | Some session \<Rightarrow>
          (case map_of session pid of
             None \<Rightarrow> (Inl PlayerNotConnected, w)
           | Some _ \<Rightarrow>
               (Inr (), w\<lparr>games := (games w)
                  (mid \<mapsto> filter (\<lambda>b. fst b \<noteq> pid) session)\<rparr>)))"

definition broadcast_to_game :: "int \<Rightarrow> message \<Rightarrow> unit action" where
  "broadcast_to_game mid msg w =
     (case games w mid of
        None \<Rightarrow> (Inl GameConnectionDoesNotExist, w)
      | Some session \<Rightarrow>
          (if list_all (\<lambda>b. ws_open (snd b)) session then Inr () else Inl RuntimeError,
           w\<lparr>trace := trace w @ [Broadcast_to_game mid msg]\<rparr>))"

subsection \<open>Card issuance\<close>

text \<open>
  Modelled from the spec: the card collaborators of \<^verbatim>\<open>app/routers/matches.py\<close> are not
  part of the sources at hand. The spec has them as fire-and-forget calls whose own
  failure handling is out of scope; each call is recorded as an event and the dealt
  movement cards are kept abstract.
\<close>

definition give_movement_card_to_player :: "int \<Rightarrow> unit action" where
  "give_movement_card_to_player pid w =
     (Inr (), w\<lparr>trace := trace w @ [Give_movement_card_to_player pid]\<rparr>)"

definition notify_movement_card_to_player :: "int \<Rightarrow> unit \<Rightarrow> unit action" where
  "notify_movement_card_to_player pid movs w =
     (Inr (), w\<lparr>trace := trace w @ [Notify_movement_card_to_player pid]\<rparr>)"

definition notify_all_players_movements_received :: "Players \<Rightarrow> int \<Rightarrow> unit action" where
  "notify_all_players_movements_received player mid w =
     (Inr (), w\<lparr>trace := trace w @ [Notify_all_players_movements_received (id' player) mid]\<rparr>)"

definition give_shape_card_to_player :: "int \<Rightarrow> bool \<Rightarrow> unit action" where
  "give_shape_card_to_player pid is_init w =
     (Inr (), w\<lparr>trace := trace w @ [Give_shape_card_to_player pid is_init]\<rparr>)"

section \<open>The handlers of \<^verbatim>\<open>app/routers/players.py\<close>\<close>

text \<open>
  All service calls of one request share one database session (\<^verbatim>\<open>get_db\<close> of
  \<^verbatim>\<open>app/database.py\<close>, a \<^verbatim>\<open>sessionmaker\<close> with the default expiry on commit), so an
  object loaded from it is the row itself: an attribute read after a later commit sees
  what the commit wrote. Where a handler reads an attribute of a match after a service
  call has written the match, the model loads the row again.
\<close>

text \<open>\<^verbatim>\<open>get_players_by_match(match_id)[0]\<close>: indexing an empty list raises.\<close>

definition first_player_of_match :: "int \<Rightarrow> Players action" where
  "first_player_of_match mid w =
     (case get_players_by_match mid w of
        [] \<Rightarrow> (Inl IndexError, w)
      | p # _ \<Rightarrow> (Inr p, w))"

definition playerWinner :: "int \<Rightarrow> ReasonWinning \<Rightarrow> unit action" where
  "playerWinner mid reason =
     andthen (first_player_of_match mid) (\<lambda>players0.
     andthen (delete_player (id' players0)) (\<lambda>_.
     andthen (update_match mid FINISHED 0) (\<lambda>_.
     try_except (broadcast_to_game mid (WINNER (id' players0) reason))
       (\<lambda>e. if e = RuntimeError then returns () else raise e))))"

datatype response = Response (resp_player_id: int) (resp_players: string)

definition leave_player :: "int \<Rightarrow> int \<Rightarrow> response action" where
  "leave_player pid mid =
     try_except
       (andthen (try_except (get_player_by_id pid)
                   (\<lambda>e. if e = ValueError
                         then raise (HTTPException 404 (Player_not_found_with_id pid))
                         else raise e)) (\<lambda>player_to_delete.
        andthen (get_match_by_id mid) (\<lambda>match_to_leave.
        if match_id player_to_delete \<noteq> Some mid
        then raise (HTTPException 404 Player_not_in_match)
        else if state match_to_leave = WAITING \<and> is_owner player_to_delete
        then raise (HTTPException 400 Owner_cannot_leave_match)
        else
          andthen (get_match_by_id mid) (\<lambda>match_to_leave.
          andthen (delete_player pid) (\<lambda>_.
          andthen (try_except (disconnect_player_from_game mid pid)
                     (\<lambda>e. if e = PlayerNotConnected then returns () else raise e)) (\<lambda>_.
          andthen (update_match mid (state match_to_leave)
                     (current_players match_to_leave - 1)) (\<lambda>_.
          andthen (try_except (broadcast_to_game mid (PLAYER_LEFT (player_name player_to_delete)))
                     (\<lambda>e. if e = RuntimeError then returns () else raise e)) (\<lambda>_.
          andthen (get_match_by_id mid) (\<lambda>match_to_leave.
          andthen (if current_players match_to_leave = 1 \<and> state match_to_leave = STARTED
                   then playerWinner mid FORFEIT
                   else returns ()) (\<lambda>_.
          returns (Response pid (player_name player_to_delete))))))))))))
       (\<lambda>e. if e = PlayerNotConnected
             then raise (HTTPException 404 Player_not_connected_to_match)
             else if e = GameConnectionDoesNotExist \<or> e = NoResultFound
             then raise (HTTPException 404 Match_not_found)
             else raise e)"

text \<open>
  \<^verbatim>\<open>end_turn_logic(player, match, db)\<close>: the match object is the row \<open>mid\<close> with the
  attributes \<open>match\<close> it had when it was loaded.
\<close>

definition end_turn_logic :: "Players \<Rightarrow> int \<Rightarrow> Matches \<Rightarrow> Players action" where
  "end_turn_logic player mid match =
     (if turn_order player \<noteq> Some (current_player_turn match)
      then raise (HTTPException 403 (Not_players_turn (player_name player)))
      else
        andthen (if current_player_turn match = current_players match
                 then update_turn mid 1
                 else update_turn mid (current_player_turn match + 1)) (\<lambda>_.
        andthen (get_match_by_id mid) (\<lambda>match.
        get_player_by_turn (current_player_turn match) mid)))"

definition end_turn :: "int \<Rightarrow> int \<Rightarrow> unit action" where
  "end_turn mid pid =
     andthen (try_except (get_player_by_id pid)
                (\<lambda>e. raise (HTTPException 404 Player_not_found))) (\<lambda>player.
     andthen (try_except (get_match_by_id mid)
                (\<lambda>e. raise (HTTPException 404 Match_not_found))) (\<lambda>match.
     andthen (end_turn_logic player mid match) (\<lambda>next_player.
     andthen (give_movement_card_to_player pid) (\<lambda>movs.
     andthen (notify_movement_card_to_player pid movs) (\<lambda>_.
     andthen (notify_all_players_movements_received player mid) (\<lambda>_.
     andthen (give_shape_card_to_player (id' next_player) False) (\<lambda>_.
     broadcast_to_game mid
       (END_PLAYER_TURN (player_name player) (player_name next_player)
          (turn_order next_player)))))))))"

section \<open>The validator of \<^verbatim>\<open>Players.turn_order\<close>\<close>

text \<open>
  \<^verbatim>\<open>validate_turn_order(self, key, turn_order)\<close> of \<^verbatim>\<open>app/models/models.py\<close>, and the
  attribute assignment it guards: \<^verbatim>\<open>@validates\<close> stores what the validator returns.
\<close>

definition validate_turn_order :: "Players \<Rightarrow> string \<Rightarrow> int \<Rightarrow> error + int" where
  "validate_turn_order self key turn_order' =
     (if turn_order' < 1 \<or> turn_order' > 4 then Inl ValueError else Inr turn_order')"

definition set_turn_order :: "Players \<Rightarrow> int \<Rightarrow> error + Players" where
  "set_turn_order self v =
     (case validate_turn_order self ''turn_order'' v of
        Inl e \<Rightarrow> Inl e
      | Inr v' \<Rightarrow> Inr (self\<lparr>turn_order := Some v'\<rparr>))"

section \<open>Anonymous connections\<close>

text \<open>
  Modelled from the spec: \<^verbatim>\<open>add_anonymous_connection\<close> and
  \<^verbatim>\<open>remove_anonymous_connection\<close> belong to \<^verbatim>\<open>app/connection_manager.py\<close>, which is
  not part of the sources at hand; the test
  \<^verbatim>\<open>test_add_anonymous_connection_remove_anonymous_connection\<close> is. The spec:
  removeAnonymous on an already-removed channel is a no-op, not an error. The test takes
  the length of \<^verbatim>\<open>manager._connections\<close> and notes of the second removal "Raises
  ValueError but is handled": the channels are kept in a list, and the removal of a
  channel that is not in it raises inside and is caught.
\<close>

text \<open>Python's \<^verbatim>\<open>list.remove\<close>: the first occurrence goes, an absent value raises.\<close>

fun list_remove :: "'a \<Rightarrow> 'a list \<Rightarrow> error + 'a list" where
  "list_remove x [] = Inl ValueError"
| "list_remove x (y # ys) =
     (if y = x then Inr ys
      else (case list_remove x ys of Inl e \<Rightarrow> Inl e | Inr zs \<Rightarrow> Inr (y # zs)))"

definition add_anonymous_connection :: "WebSocket \<Rightarrow> WebSocket list \<Rightarrow> WebSocket list" where
  "add_anonymous_connection websocket connections = connections @ [websocket]"

definition remove_anonymous_connection ::
    "WebSocket \<Rightarrow> WebSocket list \<Rightarrow> error + WebSocket list" where
  "remove_anonymous_connection websocket connections =
     (case list_remove websocket connections of
        Inl e \<Rightarrow> (if e = ValueError then Inr connections else Inl e)
      | Inr connections' \<Rightarrow> Inr connections')"

section \<open>Properties of a trace and of a seating\<close>

text \<open>
  The order the specification asks of an end-turn: scanning the events of the request,
  the END_PLAYER_TURN broadcast comes before any call that issues a card.
\<close>

fun is_turn_notification :: "event \<Rightarrow> bool" where
  "is_turn_notification (Broadcast_to_game _ (END_PLAYER_TURN _ _ _)) = True"
| "is_turn_notification _ = False"

fun is_card_issuance :: "event \<Rightarrow> bool" where
  "is_card_issuance (Give_movement_card_to_player _) = True"
| "is_card_issuance (Give_shape_card_to_player _ _) = True"
| "is_card_issuance _ = False"

fun notification_before_cards :: "event list \<Rightarrow> bool" where
  "notification_before_cards [] = True"
| "notification_before_cards (e # es) =
     (if is_turn_notification e then True
      else if is_card_issuance e then False
      else notification_before_cards es)"

text \<open>
  A dense seating: the turn orders of the players of a match are the values
  1..current_players, each taken once.
\<close>

definition dense_turn_orders :: "int \<Rightarrow> world \<Rightarrow> bool" where
  "dense_turn_orders mid w =
     (case matches w mid of
        None \<Rightarrow> False
      | Some m \<Rightarrow>
          distinct (map turn_order (get_players_by_match mid w)) \<and>
          set (map turn_order (get_players_by_match mid w)) =
            set (map Some [1 .. current_players m]))"

section \<open>Example states\<close>

definition alice :: Players where
  "alice = \<lparr>id' = 1, player_name = ''Alice'', is_owner = True, session_token = ''ta'',
            turn_order = Some 1, match_id = Some 7\<rparr>"

definition bob :: Players where
  "bob = \<lparr>id' = 2, player_name = ''Bob'', is_owner = False, session_token = ''tb'',
          turn_order = Some 2, match_id = Some 7\<rparr>"

definition carol :: Players where
  "carol = \<lparr>id' = 3, player_name = ''Carol'', is_owner = False, session_token = ''tc'',
            turn_order = Some 3, match_id = Some 7\<rparr>"

definition dave :: Players where
  "dave = \<lparr>id' = 4, player_name = ''Dave'', is_owner = False, session_token = ''td'',
           turn_order = Some 4, match_id = Some 7\<rparr>"

definition sessions :: "int \<rightharpoonup> (int \<times> WebSocket) list" where
  "sessions = [7 \<mapsto> [(1, WebSocket 10 True), (2, WebSocket 11 True),
                       (3, WebSocket 12 True), (4, WebSocket 13 True)]]"

text \<open>Sessions in which the channel of Carol is already closed.\<close>

definition stale_sessions :: "int \<rightharpoonup> (int \<times> WebSocket) list" where
  "stale_sessions = [7 \<mapsto> [(1, WebSocket 10 True), (2, WebSocket 11 True),
                             (3, WebSocket 12 False)]]"

text \<open>A started match of two players with two seats; Alice holds the turn.\<close>

definition duel :: Matches where
  "duel = \<lparr>match_name = ''duel'', state = STARTED, is_public = True, current_players = 2,
           max_players = 2, current_player_turn = 1\<rparr>"

definition duel_world :: world where
  "duel_world = \<lparr>matches = [7 \<mapsto> duel], players = [alice, bob], games = sessions,
                 trace = []\<rparr>"

text \<open>A started match of three players; Bob holds the turn.\<close>

definition trio :: Matches where
  "trio = \<lparr>match_name = ''trio'', state = STARTED, is_public = True, current_players = 3,
           max_players = 4, current_player_turn = 2\<rparr>"

definition trio_world :: world where
  "trio_world = \<lparr>matches = [7 \<mapsto> trio], players = [alice, bob, carol],
                 games = stale_sessions, trace = []\<rparr>"

text \<open>A started match of four players; the turn is a parameter.\<close>

definition quartet :: "int \<Rightarrow> Matches" where
  "quartet t = \<lparr>match_name = ''quartet'', state = STARTED, is_public = True,
                current_players = 4, max_players = 4, current_player_turn = t\<rparr>"

definition quartet_world :: "int \<Rightarrow> world" where
  "quartet_world t = \<lparr>matches = [7 \<mapsto> quartet t], players = [alice, bob, carol, dave],
                      games = sessions, trace = []\<rparr>"

text \<open>A match still waiting in the lobby, with its owner Alice and Bob.\<close>

definition lobby :: Matches where
  "lobby = \<lparr>match_name = ''lobby'', state = WAITING, is_public = True, current_players = 2,
            max_players = 4, current_player_turn = 0\<rparr>"

definition lobby_world :: world where
  "lobby_world = \<lparr>matches = [7 \<mapsto> lobby], players = [alice, bob], games = sessions,
                  trace = []\<rparr>"

section \<open>Unfolding the model\<close>

lemmas action_defs = returns_def raise_def andthen_def try_except_def

lemmas storage_defs = get_player_by_id_def get_match_by_id_def get_players_by_match_def
  get_player_by_turn_def delete_player_def update_match_def update_turn_def

lemmas manager_defs = disconnect_player_from_game_def broadcast_to_game_def

lemmas card_defs = give_movement_card_to_player_def notify_movement_card_to_player_def
  notify_all_players_movements_received_def give_shape_card_to_player_def

lemmas example_defs = alice_def bob_def carol_def dave_def sessions_def stale_sessions_def
  duel_def
  duel_world_def trio_def trio_world_def quartet_def quartet_world_def lobby_def
  lobby_world_def

lemma get_match_by_id_found:
  "get_match_by_id mid w = (Inr m, w') \<Longrightarrow> matches w mid = Some m"
  by (simp add: get_match_by_id_def split: option.splits)

lemma get_player_by_id_found:
  "get_player_by_id pid w = (Inr p, w') \<Longrightarrow> find (\<lambda>q. id' q = pid) (players w) = Some p"
  by (simp add: get_player_by_id_def split: option.splits)

section \<open>End of turn\<close>

text \<open>
  Claim C6. An end-turn request by a player whose turn order is not the current turn of
  the match fails with the 403 error "It's not player ...'s turn" and leaves the whole
  state as it was: no turn update, no event (neither a notification nor a card call).
\<close>

theorem end_turn_not_players_turn:
  assumes "get_player_by_id pid w = (Inr player, w)"
    and "get_match_by_id mid w = (Inr match, w)"
    and "turn_order player \<noteq> Some (current_player_turn match)"
  shows "end_turn mid pid w =
           (Inl (HTTPException 403 (Not_players_turn (player_name player))), w)"
  unfolding end_turn_def
  using assms(3)
  by (simp add: try_except_def andthen_def assms(1,2) end_turn_logic_def raise_def)

theorem end_turn_not_players_turn_witness:
  "get_player_by_id 2 duel_world = (Inr bob, duel_world)
   \<and> get_match_by_id 7 duel_world = (Inr duel, duel_world)
   \<and> turn_order bob \<noteq> Some (current_player_turn duel)
   \<and> end_turn 7 2 duel_world = (Inl (HTTPException 403 (Not_players_turn ''Bob'')), duel_world)"
proof -
  have h1: "get_player_by_id 2 duel_world = (Inr bob, duel_world)"
    by (simp add: get_player_by_id_def example_defs)
  have h2: "get_match_by_id 7 duel_world = (Inr duel, duel_world)"
    by (simp add: get_match_by_id_def example_defs)
  have h3: "turn_order bob \<noteq> Some (current_player_turn duel)"
    by (simp add: example_defs)
  have "player_name bob = ''Bob''"
    by (simp add: bob_def)
  with end_turn_not_players_turn [OF h1 h2 h3] h1 h2 h3 show ?thesis
    by simp
qed

text \<open>
  Claim C3. When the acting player holds the turn, an end-turn request sets the current
  turn of the match to 1 if it was equal to the number of current players, and to its
  successor otherwise. The wrap is at \<open>current_players\<close>, not at a fixed 4. The turn is
  written whatever the lifecycle state of the match, so in particular when it is STARTED.
\<close>

theorem end_turn_rotation:
  assumes "get_player_by_id pid w = (Inr player, w)"
    and "get_match_by_id mid w = (Inr match, w)"
    and "turn_order player = Some (current_player_turn match)"
  shows "matches (snd (end_turn mid pid w)) mid =
           Some (match\<lparr>current_player_turn :=
             (if current_player_turn match = current_players match then 1
              else current_player_turn match + 1)\<rparr>)"
proof -
  from assms(2) have m: "matches w mid = Some match"
    by (rule get_match_by_id_found)
  show ?thesis
    unfolding end_turn_def
    using assms(3) m
    by (simp add: try_except_def andthen_def assms(1,2) end_turn_logic_def update_turn_def
        get_match_by_id_def get_player_by_turn_def card_defs broadcast_to_game_def
        split: list.splits option.splits)
qed

theorem end_turn_rotation_witness:
  "get_player_by_id 4 (quartet_world 4) = (Inr dave, quartet_world 4)
   \<and> get_match_by_id 7 (quartet_world 4) = (Inr (quartet 4), quartet_world 4)
   \<and> turn_order dave = Some (current_player_turn (quartet 4))
   \<and> state (quartet 4) = STARTED \<and> current_players (quartet 4) = 4
   \<and> matches (snd (end_turn 7 4 (quartet_world 4))) 7 = Some (quartet 1)
   \<and> get_player_by_id 2 (quartet_world 2) = (Inr bob, quartet_world 2)
   \<and> get_match_by_id 7 (quartet_world 2) = (Inr (quartet 2), quartet_world 2)
   \<and> turn_order bob = Some (current_player_turn (quartet 2))
   \<and> matches (snd (end_turn 7 2 (quartet_world 2))) 7 = Some (quartet 3)"
proof -
  have a1: "get_player_by_id 4 (quartet_world 4) = (Inr dave, quartet_world 4)"
    by (simp add: get_player_by_id_def example_defs)
  have a2: "get_match_by_id 7 (quartet_world 4) = (Inr (quartet 4), quartet_world 4)"
    by (simp add: get_match_by_id_def example_defs)
  have a3: "turn_order dave = Some (current_player_turn (quartet 4))"
    by (simp add: example_defs)
  have b1: "get_player_by_id 2 (quartet_world 2) = (Inr bob, quartet_world 2)"
    by (simp add: get_player_by_id_def example_defs)
  have b2: "get_match_by_id 7 (quartet_world 2) = (Inr (quartet 2), quartet_world 2)"
    by (simp add: get_match_by_id_def example_defs)
  have b3: "turn_order bob = Some (current_player_turn (quartet 2))"
    by (simp add: example_defs)
  have a: "matches (snd (end_turn 7 4 (quartet_world 4))) 7 = Some (quartet 1)"
    using end_turn_rotation [OF a1 a2 a3] by (simp add: quartet_def)
  have b: "matches (snd (end_turn 7 2 (quartet_world 2))) 7 = Some (quartet 3)"
    using end_turn_rotation [OF b1 b2 b3] by (simp add: quartet_def)
  have c: "state (quartet 4) = STARTED \<and> current_players (quartet 4) = 4"
    by (simp add: quartet_def)
  from a1 a2 a3 b1 b2 b3 a b c show ?thesis
    by blast
qed

section \<open>Leaving a match\<close>

text \<open>
  Claim C7. A leave request by the owner of a match that is WAITING fails with the 400
  error "Owner cannot leave match" and leaves the whole state as it was: no player is
  deleted, the player count is unchanged, nothing is unbound and nothing is broadcast.
  This holds for every player count, so in particular for more than one player.
\<close>

theorem owner_cannot_leave_waiting:
  assumes "get_player_by_id pid w = (Inr player, w)"
    and "get_match_by_id mid w = (Inr match, w)"
    and "match_id player = Some mid"
    and "is_owner player"
    and "state match = WAITING"
  shows "leave_player pid mid w = (Inl (HTTPException 400 Owner_cannot_leave_match), w)"
  unfolding leave_player_def
  using assms(3-5)
  by (simp add: try_except_def andthen_def assms(1,2) raise_def)

theorem owner_cannot_leave_waiting_witness:
  "get_player_by_id 1 lobby_world = (Inr alice, lobby_world)
   \<and> get_match_by_id 7 lobby_world = (Inr lobby, lobby_world)
   \<and> match_id alice = Some 7 \<and> is_owner alice \<and> state lobby = WAITING
   \<and> 1 < current_players lobby
   \<and> leave_player 1 7 lobby_world = (Inl (HTTPException 400 Owner_cannot_leave_match), lobby_world)"
proof -
  have h1: "get_player_by_id 1 lobby_world = (Inr alice, lobby_world)"
    by (simp add: get_player_by_id_def example_defs)
  have h2: "get_match_by_id 7 lobby_world = (Inr lobby, lobby_world)"
    by (simp add: get_match_by_id_def example_defs)
  have h3: "match_id alice = Some 7" and h4: "is_owner alice"
    by (simp_all add: alice_def)
  have h5: "state lobby = WAITING" and h6: "1 < current_players lobby"
    by (simp_all add: lobby_def)
  from owner_cannot_leave_waiting [OF h1 h2 h3 h4 h5] h1 h2 h3 h4 h5 h6 show ?thesis
    by blast
qed

subsection \<open>The forfeit\<close>

lemma map_of_filter_other_key:
  "map_of (filter (\<lambda>b. fst b \<noteq> k) session) k = None"
  by (induction session) auto

lemma filter_unbound_session:
  "map_of session k = None \<Longrightarrow> filter (\<lambda>b. fst b \<noteq> k) session = session"
  by (induction session) (auto split: if_splits)

text \<open>
  The state a forfeit leaves behind: a match that is STARTED with two players, a session
  open for it, and one persisted player in it besides the one who leaves.
\<close>

lemma forfeit_leave_final_state:
  assumes p: "get_player_by_id pid w = (Inr player, w)"
    and pm: "match_id player = Some mid"
    and m: "get_match_by_id mid w = (Inr match, w)"
    and st: "state match = STARTED"
    and two: "current_players match = 2"
    and g: "games w mid = Some session"
    and surv: "filter (\<lambda>q. id' q \<noteq> pid) (get_players_by_match mid w) = [survivor]"
  shows "leave_player pid mid w =
     (Inr (Response pid (player_name player)),
      w\<lparr>matches := (matches w)(mid \<mapsto> match\<lparr>state := FINISHED, current_players := 0\<rparr>),
        players := filter (\<lambda>q. id' q \<noteq> id' survivor)
                     (filter (\<lambda>q. id' q \<noteq> pid) (players w)),
        games := (games w)(mid \<mapsto> filter (\<lambda>b. fst b \<noteq> pid) session),
        trace := trace w @ [Broadcast_to_game mid (PLAYER_LEFT (player_name player)),
                            Broadcast_to_game mid (WINNER (id' survivor) FORFEIT)]\<rparr>)"
proof -
  from p have fp: "find (\<lambda>q. id' q = pid) (players w) = Some player"
    by (rule get_player_by_id_found)
  from m have mm: "matches w mid = Some match"
    by (rule get_match_by_id_found)
  from surv have rest:
    "filter (\<lambda>q. match_id q = Some mid) (filter (\<lambda>q. id' q \<noteq> pid) (players w)) = [survivor]"
    by (simp add: get_players_by_match_def conj_commute)
  then have "survivor \<in> set (filter (\<lambda>q. match_id q = Some mid)
                                 (filter (\<lambda>q. id' q \<noteq> pid) (players w)))"
    by simp
  then have sin: "survivor \<in> set (filter (\<lambda>q. id' q \<noteq> pid) (players w))"
    by simp
  have fs: "find (\<lambda>q. id' q = id' survivor) (filter (\<lambda>q. id' q \<noteq> pid) (players w)) \<noteq> None"
    using sin by (simp add: find_None_iff) blast
  show ?thesis
  proof (cases "map_of session pid")
    case None
    then have same: "filter (\<lambda>b. fst b \<noteq> pid) session = session"
      by (rule filter_unbound_session)
    have triv: "(games w)(mid \<mapsto> session) = games w"
      using g by (simp add: fun_upd_idem)
    show ?thesis
      unfolding leave_player_def playerWinner_def first_player_of_match_def
      using pm st two g fp mm rest fs None
      by (simp add: action_defs storage_defs manager_defs same triv split: option.splits)
  next
    case (Some ws)
    show ?thesis
      unfolding leave_player_def playerWinner_def first_player_of_match_def
      using pm st two g fp mm rest fs Some
      by (simp add: action_defs storage_defs manager_defs split: option.splits)
  qed
qed

lemma duel_forfeit_hyps:
  "get_player_by_id 2 duel_world = (Inr bob, duel_world)"
  "match_id bob = Some 7"
  "get_match_by_id 7 duel_world = (Inr duel, duel_world)"
  "state duel = STARTED"
  "current_players duel = 2"
  "games duel_world 7 = Some [(1, WebSocket 10 True), (2, WebSocket 11 True),
                              (3, WebSocket 12 True), (4, WebSocket 13 True)]"
  "filter (\<lambda>q. id' q \<noteq> 2) (get_players_by_match 7 duel_world) = [alice]"
  by (simp_all add: get_player_by_id_def get_match_by_id_def get_players_by_match_def
      example_defs)

text \<open>
  Claim C1. A player leaves a match that is STARTED with two current players, for which
  a session is open and in which one other player is persisted. The request succeeds;
  afterwards the match is FINISHED with no current players, the broadcasts of the request
  are PLAYER_LEFT followed by WINNER with the id of the remaining player and the reason
  FORFEIT, and the session of the match has no binding for the player who left. Whether
  the leaving player is the owner does not matter once the match is STARTED, so the
  statement covers the non-owner of the claim.
\<close>

theorem forfeit_leave:
  assumes "get_player_by_id pid w = (Inr player, w)"
    and "match_id player = Some mid"
    and "get_match_by_id mid w = (Inr match, w)"
    and "state match = STARTED"
    and "current_players match = 2"
    and "games w mid = Some session"
    and "filter (\<lambda>q. id' q \<noteq> pid) (get_players_by_match mid w) = [survivor]"
  shows "fst (leave_player pid mid w) = Inr (Response pid (player_name player))
       \<and> map_option state (matches (snd (leave_player pid mid w)) mid) = Some FINISHED
       \<and> map_option current_players (matches (snd (leave_player pid mid w)) mid) = Some 0
       \<and> trace (snd (leave_player pid mid w)) =
           trace w @ [Broadcast_to_game mid (PLAYER_LEFT (player_name player)),
                      Broadcast_to_game mid (WINNER (id' survivor) FORFEIT)]
       \<and> map_option (\<lambda>s. map_of s pid) (games (snd (leave_player pid mid w)) mid) = Some None"
  by (simp add: forfeit_leave_final_state [OF assms] map_of_filter_other_key)

theorem forfeit_leave_witness:
  "get_player_by_id 2 duel_world = (Inr bob, duel_world)
   \<and> match_id bob = Some 7 \<and> \<not> is_owner bob
   \<and> get_match_by_id 7 duel_world = (Inr duel, duel_world)
   \<and> state duel = STARTED \<and> current_players duel = 2
   \<and> map_option (\<lambda>s. map_of s 2) (games duel_world 7) = Some (Some (WebSocket 11 True))
   \<and> filter (\<lambda>q. id' q \<noteq> 2) (get_players_by_match 7 duel_world) = [alice]
   \<and> fst (leave_player 2 7 duel_world) = Inr (Response 2 ''Bob'')
   \<and> map_option state (matches (snd (leave_player 2 7 duel_world)) 7) = Some FINISHED
   \<and> map_option current_players (matches (snd (leave_player 2 7 duel_world)) 7) = Some 0
   \<and> trace (snd (leave_player 2 7 duel_world)) =
       [Broadcast_to_game 7 (PLAYER_LEFT ''Bob''), Broadcast_to_game 7 (WINNER 1 FORFEIT)]
   \<and> map_option (\<lambda>s. map_of s 2) (games (snd (leave_player 2 7 duel_world)) 7) = Some None"
proof -
  note c = forfeit_leave [OF duel_forfeit_hyps]
  have n: "player_name bob = ''Bob''" "id' alice = 1" "trace duel_world = []"
    "\<not> is_owner bob"
    "map_option (\<lambda>s. map_of s 2) (games duel_world 7) = Some (Some (WebSocket 11 True))"
    by (simp_all add: example_defs)
  from c n duel_forfeit_hyps show ?thesis
    by simp
qed

text \<open>
  Claim C10. In the same situation the winner-handling path deletes the record of the
  surviving player as well: it is the first player listed for the match, and
  \<open>playerWinner\<close> deletes it before it broadcasts. After the request the match has no
  persisted player, and the id carried by the WINNER message, the last event of the
  request, is the id of a player that was persisted before and cannot be found any more.
\<close>

theorem forfeit_deletes_winner:
  assumes "get_player_by_id pid w = (Inr player, w)"
    and "match_id player = Some mid"
    and "get_match_by_id mid w = (Inr match, w)"
    and "state match = STARTED"
    and "current_players match = 2"
    and "games w mid = Some session"
    and "filter (\<lambda>q. id' q \<noteq> pid) (get_players_by_match mid w) = [survivor]"
  shows "get_players_by_match mid (snd (leave_player pid mid w)) = []
       \<and> last (trace (snd (leave_player pid mid w))) =
           Broadcast_to_game mid (WINNER (id' survivor) FORFEIT)
       \<and> fst (get_player_by_id (id' survivor) w) \<noteq> Inl ValueError
       \<and> fst (get_player_by_id (id' survivor) (snd (leave_player pid mid w))) = Inl ValueError"
proof -
  note final = forfeit_leave_final_state [OF assms]
  from assms(7) have rest:
    "filter (\<lambda>q. match_id q = Some mid) (filter (\<lambda>q. id' q \<noteq> pid) (players w)) = [survivor]"
    by (simp add: get_players_by_match_def conj_commute)
  have "get_players_by_match mid (snd (leave_player pid mid w)) =
          filter (\<lambda>q. id' q \<noteq> id' survivor)
            (filter (\<lambda>q. match_id q = Some mid) (filter (\<lambda>q. id' q \<noteq> pid) (players w)))"
    by (auto simp add: final get_players_by_match_def intro: filter_cong)
  also have "\<dots> = filter (\<lambda>q. id' q \<noteq> id' survivor) [survivor]"
    by (simp only: rest)
  also have "\<dots> = []"
    by simp
  finally have none: "get_players_by_match mid (snd (leave_player pid mid w)) = []" .
  have lst: "last (trace (snd (leave_player pid mid w))) =
               Broadcast_to_game mid (WINNER (id' survivor) FORFEIT)"
    by (simp add: final)
  from rest have "survivor \<in> set (filter (\<lambda>q. match_id q = Some mid)
                                    (filter (\<lambda>q. id' q \<noteq> pid) (players w)))"
    by simp
  then have "survivor \<in> set (players w)"
    by simp
  then have "find (\<lambda>q. id' q = id' survivor) (players w) \<noteq> None"
    by (simp add: find_None_iff) blast
  then have before: "fst (get_player_by_id (id' survivor) w) \<noteq> Inl ValueError"
    by (auto simp add: get_player_by_id_def split: option.splits)
  have "find (\<lambda>q. id' q = id' survivor)
          (filter (\<lambda>q. id' q \<noteq> id' survivor) (filter (\<lambda>q. id' q \<noteq> pid) (players w))) = None"
    by (simp add: find_None_iff)
  then have after:
    "fst (get_player_by_id (id' survivor) (snd (leave_player pid mid w))) = Inl ValueError"
    by (simp add: final get_player_by_id_def)
  from none lst before after show ?thesis
    by blast
qed

theorem forfeit_deletes_winner_witness:
  "get_player_by_id 2 duel_world = (Inr bob, duel_world)
   \<and> match_id bob = Some 7
   \<and> get_match_by_id 7 duel_world = (Inr duel, duel_world)
   \<and> state duel = STARTED \<and> current_players duel = 2
   \<and> filter (\<lambda>q. id' q \<noteq> 2) (get_players_by_match 7 duel_world) = [alice]
   \<and> get_players_by_match 7 (snd (leave_player 2 7 duel_world)) = []
   \<and> last (trace (snd (leave_player 2 7 duel_world))) = Broadcast_to_game 7 (WINNER 1 FORFEIT)
   \<and> fst (get_player_by_id 1 duel_world) = Inr alice
   \<and> fst (get_player_by_id 1 (snd (leave_player 2 7 duel_world))) = Inl ValueError"
proof -
  note c = forfeit_deletes_winner [OF duel_forfeit_hyps]
  have n: "id' alice = 1" "fst (get_player_by_id 1 duel_world) = Inr alice"
    by (simp_all add: get_player_by_id_def example_defs)
  from c n duel_forfeit_hyps show ?thesis
    by simp
qed

subsection \<open>What a successful leave writes\<close>

lemma leave_success_state:
  assumes ok: "leave_player pid mid w = (Inr r, w')"
    and m: "get_match_by_id mid w = (Inr match, w)"
  shows "(\<not> (current_players match - 1 = 1 \<and> state match = STARTED) \<longrightarrow>
            matches w' = (matches w)(mid \<mapsto> match\<lparr>state := state match,
                             current_players := current_players match - 1\<rparr>)
          \<and> players w' = filter (\<lambda>q. id' q \<noteq> pid) (players w))
       \<and> (current_players match - 1 = 1 \<and> state match = STARTED \<longrightarrow>
            (\<exists>winner rest.
               filter (\<lambda>q. match_id q = Some mid) (filter (\<lambda>q. id' q \<noteq> pid) (players w))
                 = winner # rest
             \<and> matches w' = (matches w)(mid \<mapsto> match\<lparr>state := FINISHED, current_players := 0\<rparr>)
             \<and> players w' = filter (\<lambda>q. id' q \<noteq> id' winner)
                               (filter (\<lambda>q. id' q \<noteq> pid) (players w))))"
proof -
  from m have mm: "matches w mid = Some match"
    by (rule get_match_by_id_found)
  show ?thesis
    using ok mm
    unfolding leave_player_def playerWinner_def first_player_of_match_def
    by (auto simp add: action_defs storage_defs manager_defs
        split: option.splits if_splits sum.splits list.splits prod.splits)
qed

lemma trio_leave:
  "leave_player 2 7 trio_world =
     (Inr (Response 2 ''Bob''),
      trio_world\<lparr>matches := [7 \<mapsto> trio\<lparr>current_players := 2\<rparr>], players := [alice, carol],
        games := [7 \<mapsto> [(1, WebSocket 10 True), (3, WebSocket 12 False)]],
        trace := [Broadcast_to_game 7 (PLAYER_LEFT ''Bob'')]\<rparr>)"
  by (simp add: leave_player_def playerWinner_def first_player_of_match_def action_defs
      storage_defs manager_defs example_defs)

lemma trio_leave_result:
  "fst (leave_player 2 7 trio_world) = Inr (Response 2 ''Bob'')"
  "leave_player 2 7 trio_world =
     (Inr (Response 2 ''Bob''), snd (leave_player 2 7 trio_world))"
  "map_option current_players (matches (snd (leave_player 2 7 trio_world)) 7) = Some 2"
  "players (snd (leave_player 2 7 trio_world)) = [alice, carol]"
  by (simp_all add: trio_leave)

lemma trio_leave_turn:
  "map_option current_player_turn (matches (snd (leave_player 2 7 trio_world)) 7) = Some 2"
  by (simp add: trio_leave) (simp add: trio_def)

text \<open>
  Claim C4 fails as stated. Bob holds the turn in a started match of three players and
  leaves. The request succeeds and the player count goes from 3 to 2, but the current
  turn of the match is still 2 afterwards, where the end-turn rule (an end-turn request
  of Bob on the same state) gives 3: \<open>leave_player\<close> never writes the turn.
\<close>

theorem leave_turn_holder_counterexample:
  "state trio = STARTED
   \<and> turn_order bob = Some (current_player_turn trio)
   \<and> fst (leave_player 2 7 trio_world) = Inr (Response 2 ''Bob'')
   \<and> map_option current_players (matches (snd (leave_player 2 7 trio_world)) 7) = Some 2
   \<and> map_option current_player_turn (matches (snd (leave_player 2 7 trio_world)) 7) = Some 2
   \<and> map_option current_player_turn (matches (snd (end_turn 7 2 trio_world)) 7) = Some 3"
proof -
  have a: "state trio = STARTED" "turn_order bob = Some (current_player_turn trio)"
    by (simp_all add: example_defs)
  note b = trio_leave_result(1,3) trio_leave_turn
  have c: "map_option current_player_turn (matches (snd (end_turn 7 2 trio_world)) 7) = Some 3"
    by (simp add: end_turn_def end_turn_logic_def action_defs storage_defs manager_defs
        card_defs example_defs)
  from a b c show ?thesis
    by blast
qed

text \<open>
  Claim C4, amended. Every successful leave from a match that is STARTED leaves the
  current turn of the match as it was, also when the player who leaves held it. The
  player count is reduced by one; when that leaves one player (the count was 2), the
  forfeit then sets it to 0 and the match to FINISHED.
\<close>

theorem leave_started_player_count:
  assumes "get_match_by_id mid w = (Inr match, w)"
    and "state match = STARTED"
    and "leave_player pid mid w = (Inr r, w')"
  shows "map_option current_player_turn (matches w' mid) = Some (current_player_turn match)
       \<and> map_option current_players (matches w' mid) =
           Some (if current_players match = 2 then 0 else current_players match - 1)
       \<and> map_option state (matches w' mid) =
           Some (if current_players match = 2 then FINISHED else STARTED)"
proof (cases "current_players match - 1 = 1")
  case True
  then have two: "current_players match = 2"
    by simp
  from leave_success_state [OF assms(3) assms(1)] True assms(2)
  have "matches w' = (matches w)(mid \<mapsto> match\<lparr>state := FINISHED, current_players := 0\<rparr>)"
    by blast
  then show ?thesis
    by (simp add: two)
next
  case False
  then have two: "current_players match \<noteq> 2"
    by simp
  from leave_success_state [OF assms(3) assms(1)] False
  have "matches w' = (matches w)(mid \<mapsto> match\<lparr>state := state match,
                        current_players := current_players match - 1\<rparr>)"
    by blast
  then show ?thesis
    by (simp add: two assms(2))
qed

theorem leave_started_player_count_witness:
  "get_match_by_id 7 trio_world = (Inr trio, trio_world)
   \<and> state trio = STARTED
   \<and> fst (leave_player 2 7 trio_world) = Inr (Response 2 ''Bob'')
   \<and> current_player_turn trio = 2 \<and> current_players trio = 3
   \<and> map_option current_player_turn (matches (snd (leave_player 2 7 trio_world)) 7) = Some 2
   \<and> map_option current_players (matches (snd (leave_player 2 7 trio_world)) 7) = Some 2
   \<and> map_option state (matches (snd (leave_player 2 7 trio_world)) 7) = Some STARTED"
proof -
  have h1: "get_match_by_id 7 trio_world = (Inr trio, trio_world)"
    by (simp add: get_match_by_id_def example_defs)
  have h2: "state trio = STARTED"
    by (simp add: trio_def)
  note h3 = trio_leave_result(2)
  have n: "current_player_turn trio = 2" "current_players trio = 3"
    by (simp_all add: trio_def)
  note r = trio_leave_result(1)
  from leave_started_player_count [OF h1 h2 h3] h1 h2 n r show ?thesis
    by simp
qed

text \<open>
  Claim C5 fails as stated. Before Bob leaves the match of three, the turn orders are
  the dense 1, 2, 3. Afterwards the match has two current players, and Alice and Carol
  still have the turn orders 1 and 3: nothing renumbers them.
\<close>

theorem leave_renumbering_counterexample:
  "dense_turn_orders 7 trio_world
   \<and> fst (leave_player 2 7 trio_world) = Inr (Response 2 ''Bob'')
   \<and> map_option current_players (matches (snd (leave_player 2 7 trio_world)) 7) = Some 2
   \<and> map turn_order (get_players_by_match 7 (snd (leave_player 2 7 trio_world)))
       = [Some 1, Some 3]
   \<and> \<not> dense_turn_orders 7 (snd (leave_player 2 7 trio_world))"
proof -
  have u: "[1 .. (3::int)] = [1, 2, 3]" "[1 .. (2::int)] = [1, 2]"
    by (simp_all add: upto_rec1)
  have a: "dense_turn_orders 7 trio_world"
    by (auto simp add: dense_turn_orders_def get_players_by_match_def example_defs u)
  note b = trio_leave_result(1,3)
  have c: "map turn_order (get_players_by_match 7 (snd (leave_player 2 7 trio_world)))
             = [Some 1, Some 3]"
    by (simp add: trio_leave_result(4) get_players_by_match_def alice_def carol_def)
  have in3: "Some (3::int) \<in> set [Some 1, Some 3]"
    by simp
  have out3: "Some (3::int) \<notin> set (map Some [1, 2])"
    by simp
  from trio_leave_result(3) obtain m' where
    m': "matches (snd (leave_player 2 7 trio_world)) 7 = Some m'" "current_players m' = 2"
    by auto
  have d: "\<not> dense_turn_orders 7 (snd (leave_player 2 7 trio_world))"
  proof
    assume "dense_turn_orders 7 (snd (leave_player 2 7 trio_world))"
    then have "set (map turn_order (get_players_by_match 7 (snd (leave_player 2 7 trio_world))))
                 = set (map Some [1 .. 2])"
      by (simp add: dense_turn_orders_def m')
    then have "set [Some 1, Some (3::int)] = set (map Some [1, 2])"
      by (simp only: c u)
    with in3 out3 show False
      by metis
  qed
  from a b c d show ?thesis
    by blast
qed

text \<open>
  Claim C5, amended. A successful leave does not renumber: every player row that remains
  is a row of before, with the turn order it had. The player table afterwards is the
  table of before without the row of the player who left and, when the leave is a
  forfeit, without the row of the first remaining player of the match.
\<close>

theorem leave_keeps_turn_orders:
  assumes "get_match_by_id mid w = (Inr match, w)"
    and "leave_player pid mid w = (Inr r, w')"
  shows "set (players w') \<subseteq> set (players w)
       \<and> (if current_players match - 1 = 1 \<and> state match = STARTED
          then \<exists>winner rest.
                 filter (\<lambda>q. id' q \<noteq> pid) (get_players_by_match mid w) = winner # rest
               \<and> players w' = filter (\<lambda>q. id' q \<noteq> id' winner)
                                 (filter (\<lambda>q. id' q \<noteq> pid) (players w))
          else players w' = filter (\<lambda>q. id' q \<noteq> pid) (players w))"
proof (cases "current_players match - 1 = 1 \<and> state match = STARTED")
  case True
  with leave_success_state [OF assms(2) assms(1)]
  obtain winner rest where
    f: "filter (\<lambda>q. match_id q = Some mid) (filter (\<lambda>q. id' q \<noteq> pid) (players w))
          = winner # rest"
    and p: "players w' = filter (\<lambda>q. id' q \<noteq> id' winner)
                           (filter (\<lambda>q. id' q \<noteq> pid) (players w))"
    by blast
  from f have "filter (\<lambda>q. id' q \<noteq> pid) (get_players_by_match mid w) = winner # rest"
    by (simp add: get_players_by_match_def conj_commute)
  moreover from p have "set (players w') \<subseteq> set (players w)"
    by auto
  ultimately show ?thesis
    using True p by auto
next
  case False
  with leave_success_state [OF assms(2) assms(1)]
  have p: "players w' = filter (\<lambda>q. id' q \<noteq> pid) (players w)"
    by blast
  then have "set (players w') \<subseteq> set (players w)"
    by auto
  with False p show ?thesis
    by auto
qed

theorem leave_keeps_turn_orders_witness:
  "get_match_by_id 7 trio_world = (Inr trio, trio_world)
   \<and> fst (leave_player 2 7 trio_world) = Inr (Response 2 ''Bob'')
   \<and> \<not> (current_players trio - 1 = 1 \<and> state trio = STARTED)
   \<and> set (players (snd (leave_player 2 7 trio_world))) \<subseteq> set (players trio_world)
   \<and> players (snd (leave_player 2 7 trio_world))
       = filter (\<lambda>q. id' q \<noteq> 2) (players trio_world)"
proof -
  have h1: "get_match_by_id 7 trio_world = (Inr trio, trio_world)"
    by (simp add: get_match_by_id_def example_defs)
  note h2 = trio_leave_result(2)
  have n: "\<not> (current_players trio - 1 = 1 \<and> state trio = STARTED)"
    by (simp add: trio_def)
  note r = trio_leave_result(1)
  from leave_keeps_turn_orders [OF h1 h2] h1 n r show ?thesis
    by simp
qed

section \<open>The order of the events of an end-turn\<close>

lemma duel_end_turn:
  "end_turn 7 1 duel_world =
     (Inr (),
      duel_world\<lparr>matches := [7 \<mapsto> duel\<lparr>current_player_turn := 2\<rparr>],
        trace := [Give_movement_card_to_player 1, Notify_movement_card_to_player 1,
                  Notify_all_players_movements_received 1 7,
                  Give_shape_card_to_player 2 False,
                  Broadcast_to_game 7 (END_PLAYER_TURN ''Alice'' ''Bob'' (Some 2))]\<rparr>)"
  by (simp add: end_turn_def end_turn_logic_def action_defs storage_defs manager_defs
      card_defs example_defs)

text \<open>
  Claim C2 fails as stated. Alice ends her turn in the match of two. The request
  succeeds, and its first event is the grant of a movement card; the END_PLAYER_TURN
  broadcast is its last event, after the grant of the shape card as well.
\<close>

theorem end_turn_order_counterexample:
  "fst (end_turn 7 1 duel_world) = Inr ()
   \<and> trace duel_world = []
   \<and> \<not> notification_before_cards (trace (snd (end_turn 7 1 duel_world)))"
  by (simp add: duel_end_turn) (simp add: duel_world_def)

lemma end_turn_success_state:
  assumes "end_turn mid pid w = (Inr r, w')"
  shows "\<exists>(player::Players) (match::Matches) (next_player::Players) rest.
           find (\<lambda>q. id' q = pid) (players w) = Some player
         \<and> matches w mid = Some match
         \<and> turn_order player = Some (current_player_turn match)
         \<and> filter (\<lambda>q. turn_order q =
                        Some (if current_player_turn match = current_players match then 1
                              else current_player_turn match + 1)
                      \<and> match_id q = Some mid) (players w) = next_player # rest
         \<and> trace w' = trace w @
             [Give_movement_card_to_player pid, Notify_movement_card_to_player pid,
              Notify_all_players_movements_received (id' player) mid,
              Give_shape_card_to_player (id' next_player) False,
              Broadcast_to_game mid
                (END_PLAYER_TURN (player_name player) (player_name next_player)
                   (turn_order next_player))]"
  using assms
  unfolding end_turn_def end_turn_logic_def
  by (auto simp add: action_defs storage_defs manager_defs card_defs
      split: option.splits if_splits sum.splits list.splits prod.splits)

text \<open>
  Claim C2, amended. In every successful end-turn the card collaborators are called
  before the END_PLAYER_TURN notification is broadcast. The events of the request are,
  in this order: the grant of a movement card to the acting player, the two
  notifications of that grant, the grant of a shape card to the next player, and last
  the END_PLAYER_TURN broadcast. The acting player is the one found for the id of the
  request and holds the turn; the next player is the one \<open>get_player_by_turn\<close> finds
  for the turn the request writes (1 after the last seat, the successor otherwise): a
  persisted player of the match with that turn order.
\<close>

theorem end_turn_events:
  assumes "end_turn mid pid w = (Inr r, w')"
  shows "\<exists>(player::Players) (match::Matches) (next_player::Players).
           get_player_by_id pid w = (Inr player, w)
         \<and> get_match_by_id mid w = (Inr match, w)
         \<and> turn_order player = Some (current_player_turn match)
         \<and> get_player_by_turn
               (if current_player_turn match = current_players match then 1
                else current_player_turn match + 1) mid w = (Inr next_player, w)
         \<and> next_player \<in> set (players w)
         \<and> match_id next_player = Some mid
         \<and> turn_order next_player =
               Some (if current_player_turn match = current_players match then 1
                     else current_player_turn match + 1)
         \<and> trace w' = trace w @
             [Give_movement_card_to_player pid, Notify_movement_card_to_player pid,
              Notify_all_players_movements_received (id' player) mid,
              Give_shape_card_to_player (id' next_player) False,
              Broadcast_to_game mid
                (END_PLAYER_TURN (player_name player) (player_name next_player)
                   (turn_order next_player))]"
proof -
  from end_turn_success_state [OF assms]
  obtain player :: Players and match :: Matches and next_player :: Players and rest where
    p: "find (\<lambda>q. id' q = pid) (players w) = Some player"
    and m: "matches w mid = Some match"
    and t: "turn_order player = Some (current_player_turn match)"
    and n: "filter (\<lambda>q. turn_order q =
                        Some (if current_player_turn match = current_players match then 1
                              else current_player_turn match + 1)
                      \<and> match_id q = Some mid) (players w) = next_player # rest"
    and tr: "trace w' = trace w @
             [Give_movement_card_to_player pid, Notify_movement_card_to_player pid,
              Notify_all_players_movements_received (id' player) mid,
              Give_shape_card_to_player (id' next_player) False,
              Broadcast_to_game mid
                (END_PLAYER_TURN (player_name player) (player_name next_player)
                   (turn_order next_player))]"
    by blast
  have gp: "get_player_by_id pid w = (Inr player, w)"
    by (simp add: get_player_by_id_def p)
  have gm: "get_match_by_id mid w = (Inr match, w)"
    by (simp add: get_match_by_id_def m)
  have gt: "get_player_by_turn
              (if current_player_turn match = current_players match then 1
               else current_player_turn match + 1) mid w = (Inr next_player, w)"
    by (simp only: get_player_by_turn_def n list.case)
  have "next_player \<in> set (filter (\<lambda>q. turn_order q =
                        Some (if current_player_turn match = current_players match then 1
                              else current_player_turn match + 1)
                      \<and> match_id q = Some mid) (players w))"
    by (simp only: n list.set_intros)
  then have mem: "next_player \<in> set (players w)"
    and nm: "match_id next_player = Some mid"
    and nt: "turn_order next_player =
               Some (if current_player_turn match = current_players match then 1
                     else current_player_turn match + 1)"
    by simp_all
  from gp gm t gt mem nm nt tr show ?thesis
    by blast
qed

theorem end_turn_events_witness:
  "end_turn 7 1 duel_world = (Inr (), snd (end_turn 7 1 duel_world))
   \<and> get_player_by_id 1 duel_world = (Inr alice, duel_world)
   \<and> get_match_by_id 7 duel_world = (Inr duel, duel_world)
   \<and> get_player_by_turn 2 7 duel_world = (Inr bob, duel_world)
   \<and> trace (snd (end_turn 7 1 duel_world)) =
       [Give_movement_card_to_player 1, Notify_movement_card_to_player 1,
        Notify_all_players_movements_received 1 7,
        Give_shape_card_to_player 2 False,
        Broadcast_to_game 7 (END_PLAYER_TURN ''Alice'' ''Bob'' (Some 2))]"
proof -
  have h: "end_turn 7 1 duel_world = (Inr (), snd (end_turn 7 1 duel_world))"
    by (simp add: duel_end_turn)
  have a: "get_player_by_id 1 duel_world = (Inr alice, duel_world)"
    by (simp add: get_player_by_id_def example_defs)
  have d: "get_match_by_id 7 duel_world = (Inr duel, duel_world)"
    by (simp add: get_match_by_id_def example_defs)
  have b: "get_player_by_turn 2 7 duel_world = (Inr bob, duel_world)"
    by (simp add: get_player_by_turn_def example_defs)
  have turn: "(if current_player_turn duel = current_players duel then 1
               else current_player_turn duel + 1) = 2"
    by (simp add: duel_def)
  from end_turn_events [OF h]
  obtain player :: Players and match :: Matches and next_player :: Players where
    p: "get_player_by_id 1 duel_world = (Inr player, duel_world)"
    and m: "get_match_by_id 7 duel_world = (Inr match, duel_world)"
    and n: "get_player_by_turn
              (if current_player_turn match = current_players match then 1
               else current_player_turn match + 1) 7 duel_world
              = (Inr next_player, duel_world)"
    and tr: "trace (snd (end_turn 7 1 duel_world)) = trace duel_world @
             [Give_movement_card_to_player 1, Notify_movement_card_to_player 1,
              Notify_all_players_movements_received (id' player) 7,
              Give_shape_card_to_player (id' next_player) False,
              Broadcast_to_game 7
                (END_PLAYER_TURN (player_name player) (player_name next_player)
                   (turn_order next_player))]"
    by blast
  from p a have pa: "player = alice"
    by simp
  from m d have md: "match = duel"
    by simp
  from n [unfolded md turn] b have nb: "next_player = bob"
    by simp
  have e: "trace duel_world = []" "id' alice = 1" "player_name alice = ''Alice''"
    "id' bob = 2" "player_name bob = ''Bob''" "turn_order bob = Some 2"
    by (simp_all add: example_defs)
  have "trace (snd (end_turn 7 1 duel_world)) =
       [Give_movement_card_to_player 1, Notify_movement_card_to_player 1,
        Notify_all_players_movements_received 1 7,
        Give_shape_card_to_player 2 False,
        Broadcast_to_game 7 (END_PLAYER_TURN ''Alice'' ''Bob'' (Some 2))]"
    using tr by (simp add: pa nb e)
  with h a d b show ?thesis
    by blast
qed

section \<open>The range of a turn order\<close>

text \<open>
  Claim C8 fails as stated. Bob is a player of the match of two seats
  (\<open>max_players = 2\<close>). The assignment of the turn order 3 to him is accepted, although
  3 is beyond the seats of his match; and so is the assignment of 1, although Alice, a
  player of the same match, has the turn order 1.
\<close>

theorem turn_order_range_counterexample:
  "match_id bob = Some 7 \<and> match_id alice = Some 7
   \<and> matches duel_world 7 = Some duel \<and> max_players duel = 2
   \<and> set_turn_order bob 3 = Inr (bob\<lparr>turn_order := Some 3\<rparr>)
   \<and> \<not> 3 \<le> max_players duel
   \<and> turn_order alice = Some 1
   \<and> set_turn_order bob 1 = Inr (bob\<lparr>turn_order := Some 1\<rparr>)"
  by (simp add: set_turn_order_def validate_turn_order_def example_defs)

text \<open>
  Claim C8, amended. Whenever the turn order of a player is assigned, the value is
  accepted exactly when it lies in the fixed range from 1 to 4, whatever the
  \<open>max_players\<close> of the match and the turn orders of its other players; a value below 1
  or above 4 is rejected with \<open>ValueError\<close>.
\<close>

theorem set_turn_order_range:
  "(1 \<le> v \<and> v \<le> 4 \<longrightarrow> set_turn_order self v = Inr (self\<lparr>turn_order := Some v\<rparr>))
   \<and> (v < 1 \<or> 4 < v \<longrightarrow> set_turn_order self v = Inl ValueError)"
  by (auto simp add: set_turn_order_def validate_turn_order_def)

theorem set_turn_order_range_witness:
  "(1::int) \<le> 3 \<and> (3::int) \<le> 4
   \<and> set_turn_order bob 3 = Inr (bob\<lparr>turn_order := Some 3\<rparr>)
   \<and> (4::int) < 5 \<and> set_turn_order bob 5 = Inl ValueError
   \<and> (0::int) < 1 \<and> set_turn_order bob 0 = Inl ValueError"
  using set_turn_order_range [of 3 bob] set_turn_order_range [of 5 bob]
    set_turn_order_range [of 0 bob]
  by simp

section \<open>Removing an anonymous connection\<close>

lemma list_remove_remove1:
  "list_remove x xs = (if x \<in> set xs then Inr (remove1 x xs) else Inl ValueError)"
  by (induction xs) auto

lemma remove_anonymous_connection_remove1:
  "remove_anonymous_connection websocket connections = Inr (remove1 websocket connections)"
  by (simp add: remove_anonymous_connection_def list_remove_remove1 remove1_idem)

text \<open>
  Claim C9. Removing a channel that is not among the anonymous connections raises no
  error and returns the connections as they are. When no channel is listed twice, a
  removal leaves the channel absent, so a second removal of the same channel is such a
  no-op: two removals in a row behave like one.
\<close>

theorem remove_anonymous_absent_noop:
  "(websocket \<notin> set connections \<longrightarrow>
      remove_anonymous_connection websocket connections = Inr connections)
   \<and> (distinct connections \<longrightarrow>
        (\<exists>rest. remove_anonymous_connection websocket connections = Inr rest
               \<and> websocket \<notin> set rest
               \<and> remove_anonymous_connection websocket rest = Inr rest))"
  by (simp add: remove_anonymous_connection_remove1 remove1_idem)

theorem remove_anonymous_absent_noop_witness:
  "WebSocket 10 True \<notin> set []
   \<and> remove_anonymous_connection (WebSocket 10 True) [] = Inr []
   \<and> distinct (add_anonymous_connection (WebSocket 10 True) [])
   \<and> remove_anonymous_connection (WebSocket 10 True)
        (add_anonymous_connection (WebSocket 10 True) []) = Inr []
   \<and> WebSocket 10 True \<notin> set [WebSocket 11 True]
   \<and> remove_anonymous_connection (WebSocket 10 True) [WebSocket 11 True]
        = Inr [WebSocket 11 True]"
proof -
  have a: "remove_anonymous_connection (WebSocket 10 True) [] = Inr []"
    using remove_anonymous_absent_noop [of "WebSocket 10 True" "[]"] by simp
  have b: "remove_anonymous_connection (WebSocket 10 True) [WebSocket 11 True]
             = Inr [WebSocket 11 True]"
    using remove_anonymous_absent_noop [of "WebSocket 10 True" "[WebSocket 11 True]"]
    by simp
  have d: "distinct (add_anonymous_connection (WebSocket 10 True) [])"
    by (simp add: add_anonymous_connection_def)
  from remove_anonymous_absent_noop [of "WebSocket 10 True"
      "add_anonymous_connection (WebSocket 10 True) []"] d
  obtain rest where
    r: "remove_anonymous_connection (WebSocket 10 True)
          (add_anonymous_connection (WebSocket 10 True) []) = Inr rest"
    and again: "remove_anonymous_connection (WebSocket 10 True) rest = Inr rest"
    by blast
  have "remove_anonymous_connection (WebSocket 10 True)
          (add_anonymous_connection (WebSocket 10 True) []) = Inr []"
    by (simp add: remove_anonymous_connection_def add_anonymous_connection_def)
  with r have "rest = []"
    by simp
  with r a b d show ?thesis
    by simp
qed

end
